theory Spec2Isabelle
  imports Main "HOL-Library.AList" "HOL-Library.Sublist"
begin

section \<open>Strings\<close>

text \<open>
  Strings are lists of ASCII characters. Python's \<^verbatim>\<open>str.lower\<close> is modelled on the 26
  Latin capitals (outside ASCII it follows Unicode, which is not modelled), and
  \<^verbatim>\<open>a in b\<close> on strings is \<^const>\<open>sublist\<close>: \<open>a\<close> occurs in \<open>b\<close> as a contiguous block.
\<close>

definition lower_char :: "char \<Rightarrow> char" where
  "lower_char c =
     (case map_of (zip ''ABCDEFGHIJKLMNOPQRSTUVWXYZ'' ''abcdefghijklmnopqrstuvwxyz'') c of
        Some l \<Rightarrow> l
      | None \<Rightarrow> c)"

definition lower :: "string \<Rightarrow> string" where
  "lower s = map lower_char s"

definition upper_char :: "char \<Rightarrow> char" where
  "upper_char c =
     (case map_of (zip ''abcdefghijklmnopqrstuvwxyz'' ''ABCDEFGHIJKLMNOPQRSTUVWXYZ'') c of
        Some u \<Rightarrow> u
      | None \<Rightarrow> c)"

definition upper :: "string \<Rightarrow> string" where
  "upper s = map upper_char s"

text \<open>
  The characters \<^verbatim>\<open>str.strip()\<close> removes from both ends of an ASCII string: tab, line feed,
  vertical tab, form feed, carriage return, the four separators 0x1C to 0x1F, and space.
\<close>

definition is_space :: "char \<Rightarrow> bool" where
  "is_space c = (c \<in> set [CHR 0x09, CHR 0x0A, CHR 0x0B, CHR 0x0C, CHR 0x0D,
                           CHR 0x1C, CHR 0x1D, CHR 0x1E, CHR 0x1F, CHR 0x20])"

definition strip :: "string \<Rightarrow> string" where
  "strip s = rev (dropWhile is_space (rev (dropWhile is_space s)))"

section \<open>Dictionaries\<close>

text \<open>
  A Python dict keeps its keys in insertion order: it is an association list, read with
  \<^const>\<open>map_of\<close> (\<^verbatim>\<open>d.get(k)\<close>, \<open>None\<close> for an absent key) and written with
  \<^const>\<open>AList.update\<close> (\<^verbatim>\<open>d[k] = v\<close>: an existing key keeps its place, a new one goes last).
\<close>

type_synonym 'v pydict = "(string \<times> 'v) list"

section \<open>Column Guesser: \<^verbatim>\<open>guess_column\<close>\<close>

text \<open>\<^verbatim>\<open>cols_lower = {c.lower(): c for c in columns}\<close>\<close>

definition cols_lower :: "string list \<Rightarrow> string pydict" where
  "cols_lower columns = foldl (\<lambda>d c. AList.update (lower c) c d) [] columns"

text \<open>The inner loop over \<^verbatim>\<open>cols_lower.items()\<close>, for one lowercased candidate.\<close>

fun scan_items :: "string \<Rightarrow> string pydict \<Rightarrow> string option" where
  "scan_items cand [] = None"
| "scan_items cand ((col_lower, original) # items) =
     (if sublist cand col_lower then Some original else scan_items cand items)"

text \<open>The outer loop over the candidates; \<open>None\<close> when the loop ends without a return.\<close>

fun scan_candidates :: "string pydict \<Rightarrow> string list \<Rightarrow> string option" where
  "scan_candidates d [] = None"
| "scan_candidates d (cand # candidates) =
     (case scan_items (lower cand) d of
        Some original \<Rightarrow> Some original
      | None \<Rightarrow> scan_candidates d candidates)"

text \<open>The result is a column name, or \<open>None\<close> for Python's \<^verbatim>\<open>None\<close>.\<close>

definition guess_column :: "string list \<Rightarrow> string list \<Rightarrow> string option" where
  "guess_column columns candidates =
     (case scan_candidates (cols_lower columns) candidates of
        Some original \<Rightarrow> Some original
      | None \<Rightarrow> (case columns of [] \<Rightarrow> None | c # _ \<Rightarrow> Some c))"

section \<open>Cells and data frames\<close>

text \<open>
  A cell of the catalog is a text, a whole number, or missing (\<open>NaN\<close>, what
  \<^verbatim>\<open>read_csv\<close> puts in an empty field). Floating-point cells are not modelled.
  \<open>py_str\<close> is what \<^verbatim>\<open>astype(str)\<close> makes of a cell: it applies \<^verbatim>\<open>str\<close> to every
  element, the missing ones included, whose text is \<^verbatim>\<open>nan\<close> (pandas before 3.0).
\<close>

datatype cell = Text string | Number int | NaN

datatype error = KeyError | TypeError | ReError

fun digits :: "nat \<Rightarrow> string" where
  "digits n =
     (if n < 10 then [''0123456789'' ! n]
      else digits (n div 10) @ [''0123456789'' ! (n mod 10)])"

fun py_str :: "cell \<Rightarrow> string" where
  "py_str (Text s) = s"
| "py_str (Number i) = (if i < 0 then CHR ''-'' # digits (nat (- i)) else digits (nat i))"
| "py_str NaN = ''nan''"

text \<open>
  A data frame is its column names and its records; a record that has no value for a
  column holds \<open>NaN\<close> there. \<open>getitem_col\<close> is \<^verbatim>\<open>df[col]\<close>, which raises for a name that
  is not a column.
\<close>

record dataframe =
  columns :: "string list"
  records :: "cell pydict list"

definition cell_at :: "cell pydict \<Rightarrow> string \<Rightarrow> cell" where
  "cell_at r col = (case map_of r col of Some v \<Rightarrow> v | None \<Rightarrow> NaN)"

definition getitem_col :: "dataframe \<Rightarrow> string \<Rightarrow> error + cell list" where
  "getitem_col df col =
     (if col \<in> set (columns df) then Inr (map (\<lambda>r. cell_at r col) (records df))
      else Inl KeyError)"

section \<open>Row Filter: \<^verbatim>\<open>filter_search\<close>\<close>

text \<open>
  \<^verbatim>\<open>Series.str.contains(term, case=False, na=False)\<close> leaves \<^verbatim>\<open>regex\<close> at its default
  \<^verbatim>\<open>True\<close>: the term is compiled as a regular expression with \<^verbatim>\<open>re.IGNORECASE\<close> and
  searched in every element. A pattern without any of the special characters of
  Python's \<^verbatim>\<open>re\<close> matches exactly where it occurs, letters compared without case. The
  meaning of every other pattern is left to a parameter, the regex engine: \<open>None\<close> when
  \<^verbatim>\<open>re.compile\<close> raises, else the search predicate of the compiled pattern.
\<close>

definition re_special :: "char \<Rightarrow> bool" where
  "re_special c = (c \<in> set [CHR ''.'', CHR ''^'', CHR ''$'', CHR ''*'', CHR ''+'', CHR ''?'',
                             CHR ''{'', CHR ''}'', CHR ''['', CHR '']'', CHR 0x5C, CHR ''|'',
                             CHR ''('', CHR '')''])"

type_synonym regex_engine = "string \<Rightarrow> (string \<Rightarrow> bool) option"

definition str_contains :: "regex_engine \<Rightarrow> string list \<Rightarrow> string \<Rightarrow> error + bool list" where
  "str_contains re series pat =
     (if list_ex re_special pat
      then (case re pat of
              None \<Rightarrow> Inl ReError
            | Some search \<Rightarrow> Inr (map search series))
      else Inr (map (\<lambda>s. sublist (lower pat) (lower s)) series))"

text \<open>
  The variable \<^verbatim>\<open>mask\<close> (\<open>msk\<close> below) starts as the Python value \<^verbatim>\<open>False\<close> and becomes
  a boolean series with the first \<^verbatim>\<open>|\<close>. Indexing the frame with a series keeps the
  records it marks; indexing it with a plain \<^verbatim>\<open>False\<close> looks for a column of that name
  and raises.
\<close>

datatype mask = Scalar bool | Series "bool list"

fun mask_or :: "mask \<Rightarrow> bool list \<Rightarrow> mask" where
  "mask_or (Scalar b) hits = Series (map (\<lambda>h. b \<or> h) hits)"
| "mask_or (Series m) hits = Series (map (\<lambda>(a, h). a \<or> h) (zip m hits))"

fun getitem_mask :: "dataframe \<Rightarrow> mask \<Rightarrow> error + dataframe" where
  "getitem_mask df (Scalar b) = Inl KeyError"
| "getitem_mask df (Series m) =
     Inr (df\<lparr>records := map snd (filter fst (zip m (records df)))\<rparr>)"

fun build_mask ::
  "regex_engine \<Rightarrow> dataframe \<Rightarrow> string \<Rightarrow> string list \<Rightarrow> mask \<Rightarrow> error + mask" where
  "build_mask re df term [] msk = Inr msk"
| "build_mask re df term (col # search_columns) msk =
     (case getitem_col df col of
        Inl e \<Rightarrow> Inl e
      | Inr series \<Rightarrow>
          (case str_contains re (map py_str series) term of
             Inl e \<Rightarrow> Inl e
           | Inr hits \<Rightarrow> build_mask re df term search_columns (mask_or msk hits)))"

definition filter_search ::
  "regex_engine \<Rightarrow> dataframe \<Rightarrow> string \<Rightarrow> string list \<Rightarrow> error + dataframe" where
  "filter_search re df term search_columns =
     (if term = [] then Inr df
      else if strip term = [] then Inr df
      else (case build_mask re df (strip term) search_columns (Scalar False) of
              Inl e \<Rightarrow> Inl e
            | Inr msk \<Rightarrow> getitem_mask df msk))"

section \<open>Pick List Aggregator: \<^verbatim>\<open>add_to_picklist\<close>\<close>

text \<open>
  The pick list is the list of dicts under \<^verbatim>\<open>st.session_state["picklist"]\<close>; the session
  state is \<open>None\<close> while that key is absent.
\<close>

type_synonym picklist = "cell pydict list"

type_synonym session_state = "picklist option"

definition ensure_picklist_state :: "session_state \<Rightarrow> picklist" where
  "ensure_picklist_state st = (case st of None \<Rightarrow> [] | Some pl \<Rightarrow> pl)"

text \<open>\<^verbatim>\<open>rows.iloc[0].to_dict()\<close>: one value per column of the frame, in column order.\<close>

definition to_dict :: "dataframe \<Rightarrow> cell pydict \<Rightarrow> cell pydict" where
  "to_dict df r = map (\<lambda>c. (c, cell_at r c)) (columns df)"

text \<open>
  Python's \<^verbatim>\<open>==\<close> on the results of two \<^verbatim>\<open>dict.get\<close> calls: \<^verbatim>\<open>None == None\<close> holds, a
  missing value (a float NaN) equals nothing, itself included, and a text never equals
  a number.
\<close>

definition py_eq :: "cell option \<Rightarrow> cell option \<Rightarrow> bool" where
  "py_eq a b = (a = b \<and> a \<noteq> Some NaN)"

text \<open>\<^verbatim>\<open>v + qty\<close> for an integer \<^verbatim>\<open>qty\<close>: a text operand raises \<^verbatim>\<open>TypeError\<close>.\<close>

fun py_add :: "cell \<Rightarrow> int \<Rightarrow> error + cell" where
  "py_add (Number n) qty = Inr (Number (n + qty))"
| "py_add NaN qty = Inr NaN"
| "py_add (Text s) qty = Inl TypeError"

text \<open>
  Lines 90 to 96: the candidate entry. \<open>location_col\<close> is \<open>None\<close> for Python's \<^verbatim>\<open>None\<close>;
  an empty name is falsy as well.
\<close>

definition build_row :: "dataframe \<Rightarrow> cell pydict \<Rightarrow> string option \<Rightarrow> int \<Rightarrow> cell pydict" where
  "build_row df r location_col qty =
     (let row = AList.update ''Menge'' (Number qty) (to_dict df r) in
      case location_col of
        None \<Rightarrow> row
      | Some l \<Rightarrow>
          (if l = [] then row
           else (case map_of row l of
                   None \<Rightarrow> row
                 | Some v \<Rightarrow> AList.update ''Lagerort_Anzeige'' v row)))"

text \<open>
  Lines 99 to 104: the loop over the existing entries. The result is the flag
  \<^verbatim>\<open>merged\<close> and the pick list after the loop.
\<close>

fun merge_existing ::
  "string \<Rightarrow> cell pydict \<Rightarrow> int \<Rightarrow> picklist \<Rightarrow> error + (bool \<times> picklist)" where
  "merge_existing product_col row qty [] = Inr (False, [])"
| "merge_existing product_col row qty (existing # rest) =
     (if py_eq (map_of existing product_col) (map_of row product_col)
      then (case py_add (case map_of existing ''Menge'' of None \<Rightarrow> Number 0 | Some v \<Rightarrow> v) qty of
              Inl e \<Rightarrow> Inl e
            | Inr v \<Rightarrow> Inr (True, AList.update ''Menge'' v existing # rest))
      else (case merge_existing product_col row qty rest of
              Inl e \<Rightarrow> Inl e
            | Inr (merged, rest') \<Rightarrow> Inr (merged, existing # rest')))"

text \<open>
  One round of the loop over \<^verbatim>\<open>selected_products\<close>, lines 81 to 106, for the selected
  product \<open>prd\<close> (\<^verbatim>\<open>prod\<close> in the source).
\<close>

definition add_product ::
  "dataframe \<Rightarrow> string \<Rightarrow> string option \<Rightarrow> (string \<rightharpoonup> int) \<Rightarrow> picklist \<Rightarrow> string
     \<Rightarrow> error + picklist" where
  "add_product df product_col location_col quantities pl prd =
     (let qty = (case quantities prd of None \<Rightarrow> 0 | Some q \<Rightarrow> q) in
      if qty \<le> 0 then Inr pl
      else if product_col \<notin> set (columns df) then Inl KeyError
      else (case find (\<lambda>r. py_str (cell_at r product_col) = prd) (records df) of
              None \<Rightarrow> Inr pl
            | Some r \<Rightarrow>
                (let row = build_row df r location_col qty in
                 case merge_existing product_col row qty pl of
                   Inl e \<Rightarrow> Inl e
                 | Inr (merged, pl') \<Rightarrow> Inr (if merged then pl' else pl @ [row]))))"

fun add_products ::
  "dataframe \<Rightarrow> string \<Rightarrow> string option \<Rightarrow> string list \<Rightarrow> (string \<rightharpoonup> int) \<Rightarrow> picklist
     \<Rightarrow> error + picklist" where
  "add_products df product_col location_col [] quantities pl = Inr pl"
| "add_products df product_col location_col (prd # selected_products) quantities pl =
     (case add_product df product_col location_col quantities pl prd of
        Inl e \<Rightarrow> Inl e
      | Inr pl' \<Rightarrow> add_products df product_col location_col selected_products quantities pl')"

definition add_to_picklist ::
  "dataframe \<Rightarrow> string \<Rightarrow> string option \<Rightarrow> string list \<Rightarrow> (string \<rightharpoonup> int) \<Rightarrow> session_state
     \<Rightarrow> error + session_state" where
  "add_to_picklist df product_col location_col selected_products quantities st =
     (case add_products df product_col location_col selected_products quantities
             (ensure_picklist_state st) of
        Inl e \<Rightarrow> Inl e
      | Inr pl \<Rightarrow> Inr (Some pl))"

text \<open>Line 354, the handler of the clear button.\<close>

definition clear_picklist :: "session_state \<Rightarrow> session_state" where
  "clear_picklist st = Some []"

text \<open>
  The two actions of a session on the pick list, and a session as the list of its
  actions, run from a given state; it stops at the first action that raises.
\<close>

datatype action =
  Add string "string option" "string list" "string \<rightharpoonup> int"
| Clear

fun run :: "dataframe \<Rightarrow> action list \<Rightarrow> session_state \<Rightarrow> error + session_state" where
  "run df [] st = Inr st"
| "run df (Add product_col location_col selected_products quantities # actions) st =
     (case add_to_picklist df product_col location_col selected_products quantities st of
        Inl e \<Rightarrow> Inl e
      | Inr st' \<Rightarrow> run df actions st')"
| "run df (Clear # actions) st = run df actions (clear_picklist st)"

section \<open>Predicates of the statements, and sample catalogs\<close>

text \<open>
  An entry whose \<^verbatim>\<open>Menge\<close> is a positive whole number, and the test of line 101 as a
  predicate on an existing entry.
\<close>

definition positive_quantity :: "cell pydict \<Rightarrow> bool" where
  "positive_quantity e = (case map_of e ''Menge'' of Some (Number n) \<Rightarrow> 0 < n | _ \<Rightarrow> False)"

definition same_product :: "string \<Rightarrow> cell pydict \<Rightarrow> cell pydict \<Rightarrow> bool" where
  "same_product product_col row existing =
     py_eq (map_of existing product_col) (map_of row product_col)"

text \<open>
  No two entries of a pick list have keys that Python's \<^verbatim>\<open>==\<close> finds equal, the key of
  an entry being its value under the product column.
\<close>

fun distinct_keys :: "cell option list \<Rightarrow> bool" where
  "distinct_keys [] = True"
| "distinct_keys (k # ks) = (\<not> list_ex (py_eq k) ks \<and> distinct_keys ks)"

definition unique_keys :: "string \<Rightarrow> picklist \<Rightarrow> bool" where
  "unique_keys product_col pl = distinct_keys (map (\<lambda>e. map_of e product_col) pl)"

text \<open>
  An action whose product column is a column of the catalog, as the select box of line
  164 ensures, and an action whose product column is a given one.
\<close>

definition known_column :: "dataframe \<Rightarrow> action \<Rightarrow> bool" where
  "known_column df a =
     (case a of Add product_col _ _ _ \<Rightarrow> product_col \<in> set (columns df) | Clear \<Rightarrow> True)"

definition uses_column :: "string \<Rightarrow> action \<Rightarrow> bool" where
  "uses_column pc a = (case a of Add product_col _ _ _ \<Rightarrow> product_col = pc | Clear \<Rightarrow> True)"

text \<open>The catalog of the specification's scenarios.\<close>

definition hardware :: dataframe where
  "hardware = \<lparr>columns = [''Item'', ''Bin''],
               records = [[(''Item'', Text ''Bolt''), (''Bin'', Text ''A1'')],
                          [(''Item'', Text ''Nut''), (''Bin'', Text ''B2'')]]\<rparr>"

text \<open>The same catalog with the bin of the first record left empty in the file.\<close>

definition hardware_no_bin :: dataframe where
  "hardware_no_bin = \<lparr>columns = [''Item'', ''Bin''],
                      records = [[(''Item'', Text ''Bolt''), (''Bin'', NaN)],
                                 [(''Item'', Text ''Nut''), (''Bin'', Text ''B2'')]]\<rparr>"

text \<open>
  A stock list whose first column is named \<^verbatim>\<open>Menge\<close>. None of the product candidates of
  line 162 occurs in its column names, so \<^verbatim>\<open>guess_column\<close> proposes \<^verbatim>\<open>Menge\<close> as the
  product column.
\<close>

definition stock :: dataframe where
  "stock = \<lparr>columns = [''Menge'', ''Teil''],
            records = [[(''Menge'', Number 10), (''Teil'', Text ''Bolt'')]]\<rparr>"

text \<open>A catalog that has a column named \<^verbatim>\<open>Lagerort_Anzeige\<close> of its own.\<close>

definition halls :: dataframe where
  "halls = \<lparr>columns = [''Item'', ''Bin'', ''Lagerort_Anzeige''],
            records = [[(''Item'', Text ''Bolt''), (''Bin'', Text ''A1''),
                        (''Lagerort_Anzeige'', Text ''Halle 1'')]]\<rparr>"

text \<open>A pick list over \<open>hardware\<close>: two bolts and one nut.\<close>

definition bolt2_nut1 :: picklist where
  "bolt2_nut1 = [[(''Item'', Text ''Bolt''), (''Bin'', Text ''A1''), (''Menge'', Number 2)],
                 [(''Item'', Text ''Nut''), (''Bin'', Text ''B2''), (''Menge'', Number 1)]]"

text \<open>A catalog whose only record has an empty item field.\<close>

definition unnamed :: dataframe where
  "unnamed = \<lparr>columns = [''Item'', ''Bin''],
              records = [[(''Item'', NaN), (''Bin'', Text ''A1'')]]\<rparr>"

section \<open>Strings: case and white space\<close>

declare digits.simps [simp del]

lemma strip_blank: "list_all is_space s \<Longrightarrow> strip s = []"
proof -
  assume "list_all is_space s"
  then have "dropWhile is_space s = []"
    by (simp add: list_all_iff)
  then show ?thesis unfolding strip_def by (simp only: rev.simps dropWhile.simps)
qed

lemma lower_char_idem: "lower_char (lower_char c) = lower_char c"
  by (simp add: lower_char_def split: option.splits if_splits)

lemma lower_upper_char: "lower_char (upper_char c) = lower_char c"
  by (simp add: lower_char_def upper_char_def split: option.splits if_splits)

lemma is_space_lower_char: "is_space (lower_char c) = is_space c"
  by (simp add: lower_char_def is_space_def split: option.splits if_splits)

lemma re_special_lower_char: "re_special (lower_char c) = re_special c"
  by (simp add: lower_char_def re_special_def split: option.splits if_splits)

lemma dropWhile_space_lower: "dropWhile is_space (lower s) = lower (dropWhile is_space s)"
  by (induction s) (simp_all add: lower_def is_space_lower_char)

lemma lower_rev: "lower (rev s) = rev (lower s)"
  by (simp add: lower_def rev_map)

lemma strip_lower: "strip (lower s) = lower (strip s)"
  by (simp add: strip_def dropWhile_space_lower lower_rev [symmetric])

lemma special_lower: "list_ex re_special (lower s) = list_ex re_special s"
  by (induction s) (simp_all add: lower_def re_special_lower_char)

lemma lower_Nil_iff: "lower s = [] \<longleftrightarrow> s = []"
  by (simp add: lower_def)

lemma lower_lower: "lower (lower s) = lower s"
  by (simp add: lower_def lower_char_idem)

lemma lower_upper: "lower (upper s) = lower s"
  by (simp add: lower_def upper_def lower_upper_char)

section \<open>The Column Guesser\<close>

lemma set_update_subset: "set (AList.update k v d) \<subseteq> insert (k, v) (set d)"
  by (induction d) auto

lemma foldl_update_keys:
  "fst ` set (foldl (\<lambda>d c. AList.update (f c) c d) d0 cs) = fst ` set d0 \<union> f ` set cs"
  by (induction cs arbitrary: d0) (auto simp: dom_update)

lemma cols_lower_keys: "fst ` set (cols_lower cols) = lower ` set cols"
  by (simp add: cols_lower_def foldl_update_keys)

lemma foldl_update_entries:
  "(k, v) \<in> set (foldl (\<lambda>d c. AList.update (f c) c d) d0 cs) \<Longrightarrow>
     (k, v) \<in> set d0 \<or> (k = f v \<and> v \<in> set cs)"
proof (induction cs arbitrary: d0)
  case Nil
  then show ?case by simp
next
  case (Cons c cs)
  from Cons.IH [OF Cons.prems [simplified]] show ?case
    using set_update_subset [of "f c" c d0] by auto
qed

lemma cols_lower_entries:
  "(k, v) \<in> set (cols_lower cols) \<Longrightarrow> k = lower v \<and> v \<in> set cols"
  using foldl_update_entries [of k v lower "[]" cols] by (simp add: cols_lower_def)

lemma scan_items_None:
  "scan_items cand d = None \<longleftrightarrow> (\<forall>k\<in>fst ` set d. \<not> sublist cand k)"
  by (induction cand d rule: scan_items.induct) auto

text \<open>
  What the inner loop returns is the value of the first item whose key contains the
  candidate.
\<close>

lemma scan_items_SomeD:
  "scan_items cand d = Some original \<Longrightarrow>
     \<exists>items1 k items2. d = items1 @ (k, original) # items2 \<and>
        (\<forall>k'\<in>fst ` set items1. \<not> sublist cand k') \<and> sublist cand k"
proof (induction cand d rule: scan_items.induct)
  case (1 cand)
  then show ?case by simp
next
  case (2 cand col_lower orig items)
  show ?case
  proof (cases "sublist cand col_lower")
    case True
    with "2.prems" have "orig = original" by simp
    with True show ?thesis
      by (intro exI [of _ "[]"] exI [of _ col_lower] exI [of _ items]) simp
  next
    case False
    with "2.prems" have "scan_items cand items = Some original" by simp
    from "2.IH" [OF False this] obtain items1 k items2 where
      "items = items1 @ (k, original) # items2"
      "\<forall>k'\<in>fst ` set items1. \<not> sublist cand k'" "sublist cand k"
      by blast
    with False show ?thesis
      by (intro exI [of _ "(col_lower, orig) # items1"] exI [of _ k] exI [of _ items2]) simp
  qed
qed

lemma scan_candidates_skip:
  "\<forall>c\<in>set pre. scan_items (lower c) d = None \<Longrightarrow>
     scan_candidates d (pre @ rest) = scan_candidates d rest"
  by (induction pre) auto

text \<open>
  C6. When no candidate occurs, letters compared without case, in any column name,
  \<open>guess_column\<close> returns the first column, and \<open>None\<close> for an empty column list, whatever
  the candidates are; with no candidates at all it returns the first column of a
  non-empty list.
\<close>

theorem guess_column_fallback:
  "((\<forall>cand\<in>set candidates. \<forall>c\<in>set cols. \<not> sublist (lower cand) (lower c)) \<longrightarrow>
      guess_column cols candidates = (case cols of [] \<Rightarrow> None | c # _ \<Rightarrow> Some c))
   \<and> guess_column [] candidates = None
   \<and> guess_column (c # cs) [] = Some c"
proof (intro conjI impI)
  assume "\<forall>cand\<in>set candidates. \<forall>c\<in>set cols. \<not> sublist (lower cand) (lower c)"
  then have "\<forall>cand\<in>set candidates. scan_items (lower cand) (cols_lower cols) = None"
    by (simp add: scan_items_None cols_lower_keys)
  then have "scan_candidates (cols_lower cols) (candidates @ []) =
      scan_candidates (cols_lower cols) []"
    by (rule scan_candidates_skip)
  then show "guess_column cols candidates = (case cols of [] \<Rightarrow> None | c # _ \<Rightarrow> Some c)"
    by (simp add: guess_column_def)
next
  have "\<forall>cand\<in>set candidates. scan_items (lower cand) (cols_lower []) = None"
    by (simp add: cols_lower_def)
  then have "scan_candidates (cols_lower []) (candidates @ []) = scan_candidates (cols_lower []) []"
    by (rule scan_candidates_skip)
  then show "guess_column [] candidates = None"
    by (simp add: guess_column_def)
next
  show "guess_column (c # cs) [] = Some c"
    by (simp add: guess_column_def)
qed

theorem guess_column_fallback_witness:
  "guess_column [''Item'', ''Bin''] [''lager'', ''regal''] = Some ''Item''
   \<and> guess_column [] [''lager'', ''regal''] = None
   \<and> guess_column [''Item'', ''Bin''] [] = Some ''Item''"
  using guess_column_fallback [of "[''lager'', ''regal'']" "[''Item'', ''Bin'']"]
    guess_column_fallback [of "[''lager'', ''regal'']" "[]"]
    guess_column_fallback [of "[]" "[]" "''Item''" "[''Bin'']"]
  by (simp add: lower_def lower_char_def sublist_code)

text \<open>
  C7. The candidates are tried in their order. For the first one that occurs in some
  column name (\<open>cand\<close>, after the candidates \<open>pre\<close> that occur in none), the result is the
  column of the first item of the lookup, in its iteration order, whose lowercased name
  contains the lowercased candidate: the items before it do not contain it. The
  candidates \<open>post\<close> that follow have no part in the result.
\<close>

theorem guess_column_first_match:
  assumes "\<forall>c'\<in>set pre. \<forall>c\<in>set cols. \<not> sublist (lower c') (lower c)"
    and "\<exists>c\<in>set cols. sublist (lower cand) (lower c)"
  shows "\<exists>items1 original items2.
           cols_lower cols = items1 @ (lower original, original) # items2 \<and>
           (\<forall>k\<in>fst ` set items1. \<not> sublist (lower cand) k) \<and>
           sublist (lower cand) (lower original) \<and>
           original \<in> set cols \<and>
           guess_column cols (pre @ cand # post) = Some original"
proof -
  let ?d = "cols_lower cols"
  from assms(1) have "\<forall>c'\<in>set pre. scan_items (lower c') ?d = None"
    by (simp add: scan_items_None cols_lower_keys)
  then have skip: "scan_candidates ?d (pre @ cand # post) = scan_candidates ?d (cand # post)"
    by (rule scan_candidates_skip)
  from assms(2) have "scan_items (lower cand) ?d \<noteq> None"
    by (simp add: scan_items_None cols_lower_keys)
  then obtain original where orig: "scan_items (lower cand) ?d = Some original" by blast
  then obtain items1 k items2 where split: "?d = items1 @ (k, original) # items2"
    and first: "\<forall>k'\<in>fst ` set items1. \<not> sublist (lower cand) k'"
    and hit: "sublist (lower cand) k"
    by (blast dest: scan_items_SomeD)
  from split have "(k, original) \<in> set ?d" by simp
  then have k: "k = lower original" and mem: "original \<in> set cols"
    by (auto dest: cols_lower_entries)
  have "guess_column cols (pre @ cand # post) = Some original"
    using skip orig by (simp add: guess_column_def)
  with split first hit k mem show ?thesis by blast
qed

theorem guess_column_first_match_witness:
  "\<exists>items1 original items2.
     cols_lower [''Artikel'', ''Regal'', ''Lagerort''] =
       items1 @ (lower original, original) # items2 \<and>
     (\<forall>k\<in>fst ` set items1. \<not> sublist (lower ''Lager'') k) \<and>
     sublist (lower ''Lager'') (lower original) \<and>
     original \<in> set [''Artikel'', ''Regal'', ''Lagerort''] \<and>
     guess_column [''Artikel'', ''Regal'', ''Lagerort''] ([''bin''] @ ''Lager'' # [''regal''])
       = Some original"
proof -
  have h1: "\<forall>c'\<in>set [''bin'']. \<forall>c\<in>set [''Artikel'', ''Regal'', ''Lagerort''].
              \<not> sublist (lower c') (lower c)"
    by (simp add: lower_def lower_char_def sublist_code)
  have h2: "\<exists>c\<in>set [''Artikel'', ''Regal'', ''Lagerort'']. sublist (lower ''Lager'') (lower c)"
    by (simp add: lower_def lower_char_def sublist_code)
  show ?thesis by (rule guess_column_first_match [OF h1 h2])
qed

text \<open>The same call evaluated: the second candidate decides, the third is not reached.\<close>

lemma guess_column_example:
  "guess_column [''Artikel'', ''Regal'', ''Lagerort''] [''bin'', ''Lager'', ''regal'']
     = Some ''Lagerort''"
  by (simp add: guess_column_def cols_lower_def lower_def lower_char_def sublist_code)

text \<open>
  Two columns that differ in case only share one item of the lookup; it holds the later
  of the two names.
\<close>

lemma guess_column_same_lowercase:
  "guess_column [''Name'', ''NAME'', ''Bin''] [''am''] = Some ''NAME''"
  by (simp add: guess_column_def cols_lower_def lower_def lower_char_def sublist_code)

section \<open>The Row Filter\<close>

text \<open>
  With a term free of special characters and search columns that exist, every round of
  the loop succeeds, and the mask marks the records with a hit in one of the columns
  seen so far.
\<close>

lemma build_mask_series:
  assumes "\<not> list_ex re_special t" and "set cols \<subseteq> set (columns df)"
    and "length m = length (records df)"
  shows "build_mask re df t cols (Series m) =
     Inr (Series (map (\<lambda>(a, r). a \<or> (\<exists>c\<in>set cols. sublist (lower t) (lower (py_str (cell_at r c)))))
             (zip m (records df))))"
  using assms
proof (induction cols arbitrary: m)
  case Nil
  then show ?case by (auto intro: nth_equalityI)
next
  case (Cons c cols)
  let ?hits = "map (\<lambda>s. sublist (lower t) (lower s))
                 (map py_str (map (\<lambda>r. cell_at r c) (records df)))"
  let ?m' = "map (\<lambda>(a, h). a \<or> h) (zip m ?hits)"
  have len: "length ?m' = length (records df)" using Cons.prems by simp
  have step: "build_mask re df t (c # cols) (Series m) = build_mask re df t cols (Series ?m')"
    using Cons.prems by (simp add: getitem_col_def str_contains_def)
  have "build_mask re df t cols (Series ?m') =
     Inr (Series (map (\<lambda>(a, r). a \<or> (\<exists>c\<in>set cols. sublist (lower t) (lower (py_str (cell_at r c)))))
             (zip ?m' (records df))))"
    using Cons.IH [OF _ _ len] Cons.prems by simp
  also have "map (\<lambda>(a, r). a \<or> (\<exists>c\<in>set cols. sublist (lower t) (lower (py_str (cell_at r c)))))
             (zip ?m' (records df)) =
        map (\<lambda>(a, r). a \<or> (\<exists>c\<in>set (c # cols). sublist (lower t) (lower (py_str (cell_at r c)))))
             (zip m (records df))"
    using Cons.prems(3) by (intro nth_equalityI) auto
  finally show ?case using step by simp
qed

lemma filter_by_mask: "map snd (filter fst (zip (map P xs) xs)) = filter P xs"
  by (induction xs) auto

lemma filter_search_plain:
  assumes "strip term \<noteq> []" and "\<not> list_ex re_special (strip term)"
    and "search_columns \<noteq> []" and "set search_columns \<subseteq> set (columns df)"
  shows "filter_search re df term search_columns =
     Inr (df\<lparr>records := filter (\<lambda>r. \<exists>c\<in>set search_columns.
             sublist (lower (strip term)) (lower (py_str (cell_at r c)))) (records df)\<rparr>)"
proof -
  let ?t = "strip term"
  obtain c cols where sc: "search_columns = c # cols"
    using assms(3) by (cases search_columns) auto
  let ?hits = "map (\<lambda>r. sublist (lower ?t) (lower (py_str (cell_at r c)))) (records df)"
  have "build_mask re df ?t search_columns (Scalar False) =
      build_mask re df ?t cols (Series ?hits)"
    using assms sc by (simp add: getitem_col_def str_contains_def comp_def)
  also have "\<dots> = Inr (Series (map (\<lambda>(a, r). a \<or>
                 (\<exists>c\<in>set cols. sublist (lower ?t) (lower (py_str (cell_at r c)))))
             (zip ?hits (records df))))"
    using assms sc by (intro build_mask_series) auto
  also have "map (\<lambda>(a, r). a \<or> (\<exists>c\<in>set cols. sublist (lower ?t) (lower (py_str (cell_at r c)))))
             (zip ?hits (records df)) =
       map (\<lambda>r. \<exists>c\<in>set search_columns. sublist (lower ?t) (lower (py_str (cell_at r c))))
         (records df)"
    using sc by (intro nth_equalityI) auto
  finally have "build_mask re df ?t search_columns (Scalar False) =
      Inr (Series (map (\<lambda>r. \<exists>c\<in>set search_columns.
             sublist (lower ?t) (lower (py_str (cell_at r c)))) (records df)))" .
  moreover have "term \<noteq> []" using assms(1) by (auto simp: strip_def)
  ultimately show ?thesis
    using assms(1) by (simp add: filter_search_def filter_by_mask)
qed

text \<open>
  C3, as the code has it. The term is stripped of surrounding white space before the
  search. For a term whose stripped form is not empty and has no special character of
  regular expressions, for a non-empty list of search columns of the frame, and for
  records that have a value in each of them, the filter keeps exactly the records in
  which at least one search column, its value converted by \<open>py_str\<close>, contains the
  stripped term, letters compared without case. Two spellings of the term that differ
  in letter case only give the same result, and the records kept are a sub-sequence of
  the input in its order. (What a missing value does is the matter of C4; the lemma
  \<open>filter_search_plain\<close> above holds with missing values too.)
\<close>

theorem filter_search_substring:
  assumes "strip term \<noteq> []" and "\<not> list_ex re_special (strip term)"
    and "search_columns \<noteq> []" and "set search_columns \<subseteq> set (columns df)"
    and "\<forall>r\<in>set (records df). \<forall>c\<in>set search_columns. cell_at r c \<noteq> NaN"
  shows "filter_search re df term search_columns =
           Inr (df\<lparr>records := filter (\<lambda>r. \<exists>c\<in>set search_columns.
                  sublist (lower (strip term)) (lower (py_str (cell_at r c)))) (records df)\<rparr>)
       \<and> (\<forall>term'. lower term' = lower term \<longrightarrow>
             filter_search re df term' search_columns = filter_search re df term search_columns)
       \<and> filter_search re df (upper term) search_columns =
           filter_search re df (lower term) search_columns
       \<and> (\<exists>df'. filter_search re df term search_columns = Inr df' \<and>
             subseq (records df') (records df))"
proof -
  have spellings: "filter_search re df term' search_columns =
      filter_search re df term search_columns" if eq: "lower term' = lower term" for term'
  proof -
    have l: "lower (strip term') = lower (strip term)"
      using eq by (simp add: strip_lower [symmetric])
    then have "strip term' \<noteq> []" using assms(1) by (metis lower_Nil_iff)
    moreover have "\<not> list_ex re_special (strip term')"
      using assms(2) l by (metis special_lower)
    ultimately have "filter_search re df term' search_columns =
           Inr (df\<lparr>records := filter (\<lambda>r. \<exists>c\<in>set search_columns.
                  sublist (lower (strip term')) (lower (py_str (cell_at r c)))) (records df)\<rparr>)"
      using assms(3,4) by (rule filter_search_plain)
    then show ?thesis
      unfolding filter_search_plain [OF assms(1-4)] l by simp
  qed
  have "filter_search re df (upper term) search_columns =
      filter_search re df (lower term) search_columns"
    using spellings [of "upper term"] spellings [of "lower term"]
    by (simp add: lower_upper lower_lower)
  moreover have "\<exists>df'. filter_search re df term search_columns = Inr df' \<and>
      subseq (records df') (records df)"
    unfolding filter_search_plain [OF assms(1-4)] by simp
  ultimately show ?thesis
    using filter_search_plain [OF assms(1-4)] spellings by blast
qed

text \<open>
  The scenario of the specification, \<^verbatim>\<open>filter(rows, "bo", ["Item"])\<close>, in capitals and in
  small letters. The term has no special character, so the regex engine is not asked
  and any engine (here the empty one) gives this result.
\<close>

theorem filter_search_substring_witness:
  "filter_search Map.empty hardware ''BO'' [''Item''] =
     Inr (hardware\<lparr>records := [[(''Item'', Text ''Bolt''), (''Bin'', Text ''A1'')]]\<rparr>)
   \<and> filter_search Map.empty hardware ''bo'' [''Item''] =
       filter_search Map.empty hardware ''BO'' [''Item'']"
proof -
  have h1: "strip ''BO'' \<noteq> []" by (simp add: strip_def is_space_def)
  have h2: "\<not> list_ex re_special (strip ''BO'')"
    by (simp add: strip_def is_space_def re_special_def)
  have h3: "[''Item''] \<noteq> []" by simp
  have h4: "set [''Item''] \<subseteq> set (columns hardware)" by (simp add: hardware_def)
  have h5: "\<forall>r\<in>set (records hardware). \<forall>c\<in>set [''Item'']. cell_at r c \<noteq> NaN"
    by (simp add: hardware_def cell_at_def)
  have e: "lower ''bo'' = lower ''BO''" by (simp add: lower_def lower_char_def)
  note w = filter_search_substring [OF h1 h2 h3 h4 h5, of Map.empty]
  have "filter (\<lambda>r. \<exists>c\<in>set [''Item''].
            sublist (lower (strip ''BO'')) (lower (py_str (cell_at r c))))
          (records hardware) = [[(''Item'', Text ''Bolt''), (''Bin'', Text ''A1'')]]"
    by (simp add: hardware_def strip_def is_space_def cell_at_def lower_def lower_char_def
        sublist_code)
  with w e show ?thesis by simp
qed

text \<open>
  C3 as stated fails at a term with surrounding blanks: the record of the bolt is kept
  for the term \<^verbatim>\<open>" bo "\<close>, although its item does not contain that term.
\<close>

theorem filter_search_strips_term:
  "filter_search Map.empty hardware '' bo '' [''Item''] =
     Inr (hardware\<lparr>records := [[(''Item'', Text ''Bolt''), (''Bin'', Text ''A1'')]]\<rparr>)
   \<and> \<not> sublist (lower '' bo '')
         (lower (py_str (cell_at [(''Item'', Text ''Bolt''), (''Bin'', Text ''A1'')] ''Item'')))"
  by (simp add: hardware_def filter_search_def strip_def is_space_def getitem_col_def
      str_contains_def re_special_def cell_at_def lower_def lower_char_def sublist_code)

text \<open>
  Outside these conditions: a term with a special character is a pattern
  for the regex engine: where the engine rejects it the filter raises, and where it
  compiles the engine's search decides, not the occurrence of the term. No search column
  at all leaves the mask the plain \<^verbatim>\<open>False\<close>, and indexing with it raises; so does a
  search column the frame does not have.
\<close>

lemma filter_search_rejected_pattern:
  assumes "list_ex re_special (strip term)" and "re (strip term) = None"
    and "c \<in> set (columns df)"
  shows "filter_search re df term (c # cols) = Inl ReError"
proof -
  have "strip term \<noteq> []" using assms(1) by auto
  moreover from this have "term \<noteq> []" by (auto simp: strip_def)
  ultimately show ?thesis
    using assms by (simp add: filter_search_def getitem_col_def str_contains_def)
qed

lemma filter_search_compiled_pattern:
  assumes "list_ex re_special (strip term)" and "re (strip term) = Some search"
    and "c \<in> set (columns df)"
  shows "filter_search re df term [c] =
     Inr (df\<lparr>records := filter (\<lambda>r. search (py_str (cell_at r c))) (records df)\<rparr>)"
proof -
  have "strip term \<noteq> []" using assms(1) by auto
  moreover from this have "term \<noteq> []" by (auto simp: strip_def)
  moreover have "map snd (filter fst (zip (map (\<lambda>r. search (py_str (cell_at r c))) (records df))
      (records df))) = filter (\<lambda>r. search (py_str (cell_at r c))) (records df)"
    by (rule filter_by_mask)
  ultimately show ?thesis
    using assms by (simp add: filter_search_def getitem_col_def str_contains_def comp_def)
qed

lemma filter_search_no_columns:
  "strip term \<noteq> [] \<Longrightarrow> filter_search re df term [] = Inl KeyError"
  by (auto simp: filter_search_def strip_def)

lemma filter_search_unknown_column:
  "strip term \<noteq> [] \<Longrightarrow> c \<notin> set (columns df) \<Longrightarrow>
     filter_search re df term (c # cols) = Inl KeyError"
  by (auto simp: filter_search_def strip_def getitem_col_def)

text \<open>
  C4. In \<open>hardware_no_bin\<close> the bin of the bolt is missing. Searched for the term
  \<^verbatim>\<open>nan\<close>, the record of the bolt is returned: \<^verbatim>\<open>astype(str)\<close> has made the text \<^verbatim>\<open>nan\<close> of
  the missing value before \<^verbatim>\<open>str.contains\<close> sees it, so \<^verbatim>\<open>na=False\<close> finds nothing
  missing to reject, and the missing value matches the term.
\<close>

theorem filter_search_missing_value_matches:
  "filter_search re hardware_no_bin ''nan'' [''Item'', ''Bin''] =
     Inr (hardware_no_bin\<lparr>records := [[(''Item'', Text ''Bolt''), (''Bin'', NaN)]]\<rparr>)"
  by (simp add: hardware_no_bin_def filter_search_def strip_def is_space_def getitem_col_def
      str_contains_def re_special_def cell_at_def lower_def lower_char_def sublist_code)

text \<open>
  C8. A term that is empty or consists of white space only gives the frame back as it
  is, for any search columns.
\<close>

theorem filter_search_blank:
  "list_all is_space term \<Longrightarrow> filter_search re df term search_columns = Inr df"
  by (simp add: filter_search_def strip_blank)

theorem filter_search_blank_witness:
  "list_all is_space [CHR '' '', CHR 0x09]
   \<and> filter_search Map.empty hardware [CHR '' '', CHR 0x09] [''Item''] = Inr hardware
   \<and> filter_search Map.empty hardware [] [''Item''] = Inr hardware"
proof -
  have h: "list_all is_space [CHR '' '', CHR 0x09]" by (simp add: is_space_def)
  have h0: "list_all is_space []" by simp
  show ?thesis
    using h filter_search_blank [OF h, of Map.empty hardware "[''Item'']"]
      filter_search_blank [OF h0, of Map.empty hardware "[''Item'']"] by simp
qed

section \<open>The Pick List Aggregator\<close>

subsection \<open>The loop over the existing entries\<close>

lemma positive_quantityD:
  "positive_quantity e \<Longrightarrow> \<exists>n. map_of e ''Menge'' = Some (Number n) \<and> 0 < n"
  by (auto simp: positive_quantity_def split: option.splits cell.splits)

lemma merge_existing_no_match:
  "\<not> list_ex (same_product product_col row) pl \<Longrightarrow>
     merge_existing product_col row qty pl = Inr (False, pl)"
  by (induction pl) (auto simp: same_product_def)

lemma merge_existing_match:
  assumes "list_ex (same_product product_col row) pl" "list_all positive_quantity pl"
  shows "\<exists>i n. i < length pl \<and> same_product product_col row (pl ! i) \<and>
           (\<forall>j<i. \<not> same_product product_col row (pl ! j)) \<and>
           map_of (pl ! i) ''Menge'' = Some (Number n) \<and> 0 < n \<and>
           merge_existing product_col row qty pl =
             Inr (True, pl[i := AList.update ''Menge'' (Number (n + qty)) (pl ! i)])"
  using assms
proof (induction pl)
  case Nil
  then show ?case by simp
next
  case (Cons e pl)
  show ?case
  proof (cases "same_product product_col row e")
    case True
    from Cons.prems(2) obtain n where n: "map_of e ''Menge'' = Some (Number n)" "0 < n"
      using positive_quantityD by auto
    have "merge_existing product_col row qty (e # pl) =
            Inr (True, (e # pl)[0 := AList.update ''Menge'' (Number (n + qty)) ((e # pl) ! 0)])"
      using True n by (simp add: same_product_def)
    with True n show ?thesis
      by (intro exI [of _ 0] exI [of _ n]) simp
  next
    case False
    with Cons.prems have "list_ex (same_product product_col row) pl" "list_all positive_quantity pl"
      by auto
    from Cons.IH [OF this] obtain i n where i: "i < length pl"
      "same_product product_col row (pl ! i)"
      "\<forall>j<i. \<not> same_product product_col row (pl ! j)"
      "map_of (pl ! i) ''Menge'' = Some (Number n)" "0 < n"
      "merge_existing product_col row qty pl =
             Inr (True, pl[i := AList.update ''Menge'' (Number (n + qty)) (pl ! i)])"
      by blast
    have "\<forall>j<Suc i. \<not> same_product product_col row ((e # pl) ! j)"
      using False i(3) by (auto simp: less_Suc_eq_0_disj)
    moreover have "merge_existing product_col row qty (e # pl) =
        Inr (True, (e # pl)[Suc i := AList.update ''Menge'' (Number (n + qty)) ((e # pl) ! Suc i)])"
      using False i(6) by (simp add: same_product_def)
    ultimately show ?thesis
      using i by (intro exI [of _ "Suc i"] exI [of _ n]) simp
  qed
qed

lemma map_fst_update_present:
  "k \<in> fst ` set al \<Longrightarrow> map fst (AList.update k v al) = map fst al"
  by (induction al) auto

lemma map_of_to_dict:
  "map_of (to_dict df r) k = (if k \<in> set (columns df) then Some (cell_at r k) else None)"
  by (simp add: to_dict_def map_of_map_restrict restrict_map_def)

lemma build_row_Menge: "map_of (build_row df r location_col qty) ''Menge'' = Some (Number qty)"
  by (simp add: build_row_def Let_def update_conv' split: option.splits)

lemma positive_build_row: "0 < qty \<Longrightarrow> positive_quantity (build_row df r location_col qty)"
  by (simp add: positive_quantity_def build_row_Menge)

lemma positive_update: "0 < n \<Longrightarrow> positive_quantity (AList.update ''Menge'' (Number n) e)"
  by (simp add: positive_quantity_def update_conv')

lemma add_product_cases:
  assumes "list_all positive_quantity pl" "product_col \<in> set (columns df)"
  shows "\<exists>pl'. add_product df product_col location_col quantities pl prd = Inr pl' \<and>
            list_all positive_quantity pl'"
proof -
  let ?qty = "case quantities prd of None \<Rightarrow> 0 | Some q \<Rightarrow> q"
  show ?thesis
  proof (cases "?qty \<le> 0")
    case True
    then show ?thesis using assms by (simp add: add_product_def)
  next
    case pos: False
    show ?thesis
    proof (cases "find (\<lambda>r. py_str (cell_at r product_col) = prd) (records df)")
      case None
      then show ?thesis using assms pos by (simp add: add_product_def)
    next
      case (Some r)
      let ?row = "build_row df r location_col ?qty"
      show ?thesis
      proof (cases "list_ex (same_product product_col ?row) pl")
        case False
        then have "merge_existing product_col ?row ?qty pl = Inr (False, pl)"
          by (rule merge_existing_no_match)
        then have "add_product df product_col location_col quantities pl prd = Inr (pl @ [?row])"
          using assms pos Some by (simp add: add_product_def Let_def)
        moreover have "list_all positive_quantity (pl @ [?row])"
          using assms(1) pos by (simp add: positive_build_row)
        ultimately show ?thesis by blast
      next
        case True
        from merge_existing_match [OF True assms(1), of ?qty] obtain i n where
          i: "i < length pl" "0 < n" 
          "merge_existing product_col ?row ?qty pl =
             Inr (True, pl[i := AList.update ''Menge'' (Number (n + ?qty)) (pl ! i)])"
          by blast
        then have "add_product df product_col location_col quantities pl prd =
            Inr (pl[i := AList.update ''Menge'' (Number (n + ?qty)) (pl ! i)])"
          using assms pos Some by (simp add: add_product_def Let_def)
        moreover have "list_all positive_quantity (pl[i := AList.update ''Menge'' (Number (n + ?qty)) (pl ! i)])"
          using assms(1) i(1,2) pos
          by (auto simp: list_all_iff positive_update dest!: set_update_subset_insert [THEN subsetD])
        ultimately show ?thesis by blast
      qed
    qed
  qed
qed

lemma add_products_ok:
  assumes "list_all positive_quantity pl" "product_col \<in> set (columns df)"
  shows "\<exists>pl'. add_products df product_col location_col selected_products quantities pl = Inr pl' \<and>
            list_all positive_quantity pl'"
  using assms(1)
proof (induction selected_products arbitrary: pl)
  case Nil
  then show ?case by simp
next
  case (Cons prd ps)
  from add_product_cases [OF Cons.prems assms(2)] obtain pl1 where
    "add_product df product_col location_col quantities pl prd = Inr pl1" "list_all positive_quantity pl1"
    by blast
  with Cons.IH [of pl1] show ?case by simp
qed


lemma add_to_picklist_ok:
  assumes "list_all positive_quantity (ensure_picklist_state st)" "product_col \<in> set (columns df)"
  shows "\<exists>pl'. add_to_picklist df product_col location_col selected_products quantities st = Inr (Some pl') \<and>
            list_all positive_quantity pl'"
  using add_products_ok [OF assms, of location_col selected_products quantities]
  by (auto simp: add_to_picklist_def)


lemma run_ok:
  assumes "list_all (known_column df) actions" "list_all positive_quantity (ensure_picklist_state st)"
  shows "\<exists>st'. run df actions st = Inr st' \<and> list_all positive_quantity (ensure_picklist_state st')"
  using assms
proof (induction actions arbitrary: st)
  case Nil
  then show ?case by simp
next
  case (Cons a actions)
  show ?case
  proof (cases a)
    case (Add product_col location_col selected_products quantities)
    with Cons.prems have "product_col \<in> set (columns df)" by (simp add: known_column_def)
    from add_to_picklist_ok [OF Cons.prems(2) this, of location_col selected_products quantities]
    obtain pl' where "add_to_picklist df product_col location_col selected_products quantities st = Inr (Some pl')"
      "list_all positive_quantity pl'" by blast
    with Cons.IH [of "Some pl'"] Cons.prems(1) Add show ?thesis
      by (simp add: ensure_picklist_state_def)
  next
    case Clear
    with Cons.IH [of "Some []"] Cons.prems(1) show ?thesis
      by (simp add: clear_picklist_def ensure_picklist_state_def)
  qed
qed

lemma add_product_skip:
  assumes "quantities prd = None \<or> (\<exists>q. quantities prd = Some q \<and> q \<le> 0) \<or>
      (product_col \<in> set (columns df) \<and>
       \<not> list_ex (\<lambda>r. py_str (cell_at r product_col) = prd) (records df))"
  shows "add_product df product_col location_col quantities pl prd = Inr pl"
proof -
  from assms consider "(case quantities prd of None \<Rightarrow> 0 | Some q \<Rightarrow> q) \<le> 0"
    | "product_col \<in> set (columns df)" "find (\<lambda>r. py_str (cell_at r product_col) = prd) (records df) = None"
    by (auto simp: find_None_iff list_ex_iff)
  then show ?thesis
    by cases (auto simp: add_product_def Let_def)
qed

lemma add_products_append:
  "add_products df product_col location_col (xs @ ys) quantities pl =
     (case add_products df product_col location_col xs quantities pl of
        Inl e \<Rightarrow> Inl e
      | Inr pl' \<Rightarrow> add_products df product_col location_col ys quantities pl')"
  by (induction xs arbitrary: pl) (auto split: sum.splits)

subsection \<open>Skipped products\<close>

text \<open>
  C5. A selected product whose quantity is absent from the mapping or not positive, or
  that no record of the catalog carries under the product column (a column of the
  catalog), leaves the pick list as it is and raises nothing; the other selected
  products are handled as if it had not been selected. Every session of add and clear
  actions whose product columns are columns of the catalog runs without an error.
\<close>

theorem add_skips_silently:
  "(quantities prd = None \<or> (\<exists>q. quantities prd = Some q \<and> q \<le> 0) \<or>
      (product_col \<in> set (columns df) \<and>
       \<not> list_ex (\<lambda>r. py_str (cell_at r product_col) = prd) (records df)) \<longrightarrow>
      add_product df product_col location_col quantities pl prd = Inr pl
      \<and> add_products df product_col location_col (pre @ prd # post) quantities pl =
          add_products df product_col location_col (pre @ post) quantities pl)
   \<and> (list_all (known_column df) actions \<longrightarrow> (\<exists>st. run df actions None = Inr st))"
proof (intro conjI impI)
  assume skip: "quantities prd = None \<or> (\<exists>q. quantities prd = Some q \<and> q \<le> 0) \<or>
      (product_col \<in> set (columns df) \<and>
       \<not> list_ex (\<lambda>r. py_str (cell_at r product_col) = prd) (records df))"
  show "add_product df product_col location_col quantities pl prd = Inr pl"
    using skip by (rule add_product_skip)
  have "\<And>pl'. add_product df product_col location_col quantities pl' prd = Inr pl'"
    using skip by (rule add_product_skip)
  then show "add_products df product_col location_col (pre @ prd # post) quantities pl =
         add_products df product_col location_col (pre @ post) quantities pl"
    by (simp add: add_products_append split: sum.splits)
next
  assume "list_all (known_column df) actions"
  then show "\<exists>st. run df actions None = Inr st"
    using run_ok [of df actions None] by (auto simp: ensure_picklist_state_def)
qed

text \<open>
  The first scenario of the specification: the nut, selected with quantity 0, is
  skipped, and the session goes through.
\<close>

theorem add_skips_silently_witness:
  "add_product hardware ''Item'' (Some ''Bin'') [''Bolt'' \<mapsto> 5, ''Nut'' \<mapsto> 0] [] ''Nut'' = Inr []
   \<and> add_products hardware ''Item'' (Some ''Bin'') [''Nut'', ''Bolt'']
         [''Bolt'' \<mapsto> 5, ''Nut'' \<mapsto> 0] []
       = add_products hardware ''Item'' (Some ''Bin'') [''Bolt''] [''Bolt'' \<mapsto> 5, ''Nut'' \<mapsto> 0] []
   \<and> (\<exists>st. run hardware [Add ''Item'' (Some ''Bin'') [''Nut'', ''Bolt'']
                            [''Bolt'' \<mapsto> 5, ''Nut'' \<mapsto> 0], Clear] None = Inr st)"
proof -
  let ?q = "[''Bolt'' \<mapsto> 5 :: int, ''Nut'' \<mapsto> 0]"
  let ?acts = "[Add ''Item'' (Some ''Bin'') [''Nut'', ''Bolt''] ?q, Clear]"
  have h: "?q ''Nut'' = None \<or> (\<exists>q. ?q ''Nut'' = Some q \<and> q \<le> 0) \<or>
      (''Item'' \<in> set (columns hardware) \<and>
       \<not> list_ex (\<lambda>r. py_str (cell_at r ''Item'') = ''Nut'') (records hardware))"
    by simp
  have k: "list_all (known_column hardware) ?acts"
    by (simp add: known_column_def hardware_def)
  note w = add_skips_silently [where quantities = ?q and prd = "''Nut''"
      and product_col = "''Item''" and df = hardware and location_col = "Some ''Bin''"
      and pl = "[]" and pre = "[]" and post = "[''Bolt'']" and actions = ?acts]
  from w [unfolded append.simps] h k show ?thesis by blast
qed

subsection \<open>Merging into an existing entry\<close>

text \<open>
  C9. When the selected product is found in the catalog and an entry of the pick list
  has its key, the round returns a pick list of the same length in which the first such
  entry has its \<^verbatim>\<open>Menge\<close> raised by the quantity: the keys of that entry keep their order,
  its other fields keep their values, and every other entry is the one it was.
\<close>

theorem merge_changes_only_quantity:
  assumes "quantities prd = Some qty" and "0 < qty"
    and "product_col \<in> set (columns df)"
    and "find (\<lambda>r. py_str (cell_at r product_col) = prd) (records df) = Some r"
    and "list_ex (same_product product_col (build_row df r location_col qty)) pl"
    and "list_all positive_quantity pl"
  shows "\<exists>pl' i n.
           add_product df product_col location_col quantities pl prd = Inr pl' \<and>
           length pl' = length pl \<and> i < length pl \<and>
           same_product product_col (build_row df r location_col qty) (pl ! i) \<and>
           (\<forall>j<i. \<not> same_product product_col (build_row df r location_col qty) (pl ! j)) \<and>
           (\<forall>j<length pl. j \<noteq> i \<longrightarrow> pl' ! j = pl ! j) \<and>
           map fst (pl' ! i) = map fst (pl ! i) \<and>
           (\<forall>k. k \<noteq> ''Menge'' \<longrightarrow> map_of (pl' ! i) k = map_of (pl ! i) k) \<and>
           map_of (pl ! i) ''Menge'' = Some (Number n) \<and>
           map_of (pl' ! i) ''Menge'' = Some (Number (n + qty))"
proof -
  let ?row = "build_row df r location_col qty"
  from merge_existing_match [OF assms(5,6), of qty] obtain i n where
    i: "i < length pl" "same_product product_col ?row (pl ! i)"
      "\<forall>j<i. \<not> same_product product_col ?row (pl ! j)"
      "map_of (pl ! i) ''Menge'' = Some (Number n)"
      "merge_existing product_col ?row qty pl =
         Inr (True, pl[i := AList.update ''Menge'' (Number (n + qty)) (pl ! i)])"
    by blast
  let ?pl' = "pl[i := AList.update ''Menge'' (Number (n + qty)) (pl ! i)]"
  have res: "add_product df product_col location_col quantities pl prd = Inr ?pl'"
    using assms(1-4) i(5) by (simp add: add_product_def Let_def)
  have key: "''Menge'' \<in> fst ` set (pl ! i)"
    using i(4) by (metis domI dom_map_of_conv_image_fst)
  have at: "?pl' ! i = AList.update ''Menge'' (Number (n + qty)) (pl ! i)"
    using i(1) by simp
  have "map fst (?pl' ! i) = map fst (pl ! i)"
    unfolding at using key by (rule map_fst_update_present)
  moreover have "\<forall>k. k \<noteq> ''Menge'' \<longrightarrow> map_of (?pl' ! i) k = map_of (pl ! i) k"
    unfolding at by (simp add: update_conv')
  moreover have "map_of (?pl' ! i) ''Menge'' = Some (Number (n + qty))"
    unfolding at by (simp add: update_conv')
  moreover have "\<forall>j<length pl. j \<noteq> i \<longrightarrow> ?pl' ! j = pl ! j" by simp
  moreover have "length ?pl' = length pl" by simp
  ultimately show ?thesis using res i(1-4) by blast
qed

theorem merge_changes_only_quantity_witness:
  "add_product hardware ''Item'' None [''Nut'' \<mapsto> 3] bolt2_nut1 ''Nut'' =
     Inr [[(''Item'', Text ''Bolt''), (''Bin'', Text ''A1''), (''Menge'', Number 2)],
          [(''Item'', Text ''Nut''), (''Bin'', Text ''B2''), (''Menge'', Number 4)]]"
proof -
  let ?r = "[(''Item'', Text ''Nut''), (''Bin'', Text ''B2'')]"
  have h1: "[''Nut'' \<mapsto> 3 :: int] ''Nut'' = Some 3" by simp
  have h2: "(0::int) < 3" by simp
  have h3: "''Item'' \<in> set (columns hardware)" by (simp add: hardware_def)
  have h4: "find (\<lambda>r. py_str (cell_at r ''Item'') = ''Nut'') (records hardware) = Some ?r"
    by (simp add: hardware_def cell_at_def)
  have h5: "list_ex (same_product ''Item'' (build_row hardware ?r None 3)) bolt2_nut1"
    by (simp add: bolt2_nut1_def same_product_def py_eq_def build_row_def to_dict_def hardware_def
        cell_at_def)
  have h6: "list_all positive_quantity bolt2_nut1"
    by (simp add: bolt2_nut1_def positive_quantity_def)
  from merge_changes_only_quantity [where quantities = "[''Nut'' \<mapsto> 3]" and prd = "''Nut''",
      OF h1 h2 h3 h4 h5 h6] obtain pl' where
    "add_product hardware ''Item'' None [''Nut'' \<mapsto> 3] bolt2_nut1 ''Nut'' = Inr pl'"
    by blast
  then show ?thesis
    by (simp add: add_product_def hardware_def cell_at_def build_row_def to_dict_def
        bolt2_nut1_def py_eq_def)
qed

subsection \<open>The two fixed field names\<close>

text \<open>
  C10, as the code has it. The candidate entry holds the quantity under \<^verbatim>\<open>Menge\<close>,
  whatever the catalog had there. Under \<^verbatim>\<open>Lagerort_Anzeige\<close> it holds the record's value of
  the location column when that column is set and is a column of the catalog (the
  quantity, when the location column is \<^verbatim>\<open>Menge\<close> itself, which line 92 has written by
  then); with no location column, or one the catalog does not have, it holds what the
  catalog had under \<^verbatim>\<open>Lagerort_Anzeige\<close>. Every other field is the record's.
\<close>

theorem build_row_fixed_names:
  "map_of (build_row df r location_col qty) ''Menge'' = Some (Number qty)
   \<and> (location_col = Some l \<and> l \<noteq> [] \<and> l \<in> set (columns df) \<and> l \<noteq> ''Menge'' \<longrightarrow>
        map_of (build_row df r location_col qty) ''Lagerort_Anzeige'' = Some (cell_at r l))
   \<and> (location_col = Some ''Menge'' \<longrightarrow>
        map_of (build_row df r location_col qty) ''Lagerort_Anzeige'' = Some (Number qty))
   \<and> (location_col = None \<or> location_col = Some [] \<or>
        (location_col = Some l \<and> l \<notin> set (columns df) \<and> l \<noteq> ''Menge'') \<longrightarrow>
        map_of (build_row df r location_col qty) ''Lagerort_Anzeige'' =
          map_of (to_dict df r) ''Lagerort_Anzeige'')
   \<and> (k \<noteq> ''Menge'' \<and> k \<noteq> ''Lagerort_Anzeige'' \<longrightarrow>
        map_of (build_row df r location_col qty) k = map_of (to_dict df r) k)"
  by (auto simp: build_row_def Let_def update_conv' map_of_to_dict split: option.splits)

theorem build_row_fixed_names_witness:
  "map_of (build_row stock [(''Menge'', Number 10), (''Teil'', Text ''Bolt'')] None 4) ''Menge''
     = Some (Number 4)
   \<and> map_of (build_row halls (hd (records halls)) (Some ''Bin'') 4) ''Lagerort_Anzeige''
     = Some (Text ''A1'')
   \<and> map_of (build_row halls (hd (records halls)) None 4) ''Lagerort_Anzeige''
     = Some (Text ''Halle 1'')
   \<and> map_of (build_row halls (hd (records halls)) None 4) ''Item'' = Some (Text ''Bolt'')"
  using build_row_fixed_names [of stock "[(''Menge'', Number 10), (''Teil'', Text ''Bolt'')]" None 4]
    build_row_fixed_names [of halls "hd (records halls)" "Some ''Bin''" 4 "''Bin''" "''Item''"]
    build_row_fixed_names [of halls "hd (records halls)" None 4 "''Bin''" "''Item''"]
  by (simp add: halls_def to_dict_def cell_at_def)

text \<open>
  C10 as stated fails for a catalog with a column \<^verbatim>\<open>Lagerort_Anzeige\<close> when no location
  column is chosen: the entry keeps the catalog's value \<^verbatim>\<open>Halle 1\<close> in that field.
\<close>

theorem location_left_unset_keeps_column:
  "add_to_picklist halls ''Item'' None [''Bolt''] [''Bolt'' \<mapsto> 4] None =
     Inr (Some [[(''Item'', Text ''Bolt''), (''Bin'', Text ''A1''),
                 (''Lagerort_Anzeige'', Text ''Halle 1''), (''Menge'', Number 4)]])"
  by (simp add: add_to_picklist_def ensure_picklist_state_def add_product_def halls_def
      cell_at_def build_row_def to_dict_def)

subsection \<open>Quantities and keys of the reachable pick lists\<close>

text \<open>
  A product that no entry has yet goes to the end of the pick list, and a product
  column other than \<^verbatim>\<open>Menge\<close> keeps the keys of the entries apart as far as \<^verbatim>\<open>==\<close> can
  tell them apart.
\<close>

lemma py_eq_sym: "py_eq a b = py_eq b a"
  by (auto simp: py_eq_def)

lemma distinct_keys_snoc:
  "distinct_keys (ks @ [k]) = (distinct_keys ks \<and> \<not> list_ex (py_eq k) ks)"
  by (induction ks) (auto simp: py_eq_sym [of k])

lemma add_product_append:
  assumes "quantities prd = Some qty" and "0 < qty" and "product_col \<in> set (columns df)"
    and "find (\<lambda>r. py_str (cell_at r product_col) = prd) (records df) = Some r"
    and "\<not> list_ex (same_product product_col (build_row df r location_col qty)) pl"
  shows "add_product df product_col location_col quantities pl prd =
           Inr (pl @ [build_row df r location_col qty])"
  using assms merge_existing_no_match [OF assms(5), of qty]
  by (simp add: add_product_def Let_def)

lemma add_product_unique:
  assumes "list_all positive_quantity pl" "product_col \<in> set (columns df)"
    "product_col \<noteq> ''Menge''" "unique_keys product_col pl"
    "add_product df product_col location_col quantities pl prd = Inr pl'"
  shows "unique_keys product_col pl'"
proof -
  let ?qty = "case quantities prd of None \<Rightarrow> 0 | Some q \<Rightarrow> q"
  show ?thesis
  proof (cases "?qty \<le> 0")
    case True
    then show ?thesis using assms by (simp add: add_product_def)
  next
    case pos: False
    show ?thesis
    proof (cases "find (\<lambda>r. py_str (cell_at r product_col) = prd) (records df)")
      case None
      then show ?thesis using assms pos by (simp add: add_product_def)
    next
      case (Some r)
      let ?row = "build_row df r location_col ?qty"
      show ?thesis
      proof (cases "list_ex (same_product product_col ?row) pl")
        case False
        then have "merge_existing product_col ?row ?qty pl = Inr (False, pl)"
          by (rule merge_existing_no_match)
        then have "pl' = pl @ [?row]"
          using assms pos Some by (simp add: add_product_def Let_def)
        moreover have "\<not> list_ex (py_eq (map_of ?row product_col)) (map (\<lambda>e. map_of e product_col) pl)"
          using False by (auto simp: list_ex_iff same_product_def py_eq_sym)
        ultimately show ?thesis
          using assms(4) by (simp add: unique_keys_def distinct_keys_snoc)
      next
        case True
        from merge_existing_match [OF True assms(1), of ?qty] obtain i n where
          i: "i < length pl"
          "merge_existing product_col ?row ?qty pl =
             Inr (True, pl[i := AList.update ''Menge'' (Number (n + ?qty)) (pl ! i)])"
          by blast
        then have "pl' = pl[i := AList.update ''Menge'' (Number (n + ?qty)) (pl ! i)]"
          using assms pos Some by (simp add: add_product_def Let_def)
        then have "map (\<lambda>e. map_of e product_col) pl' = map (\<lambda>e. map_of e product_col) pl"
          using i(1) assms(3) by (simp add: map_update update_conv' list_update_same_conv)
        then show ?thesis using assms(4) by (simp add: unique_keys_def)
      qed
    qed
  qed
qed

lemma add_products_unique:
  assumes "product_col \<in> set (columns df)" "product_col \<noteq> ''Menge''"
  shows "list_all positive_quantity pl \<Longrightarrow> unique_keys product_col pl \<Longrightarrow>
    \<exists>pl'. add_products df product_col location_col selected_products quantities pl = Inr pl' \<and>
       list_all positive_quantity pl' \<and> unique_keys product_col pl'"
proof (induction selected_products arbitrary: pl)
  case Nil
  then show ?case by simp
next
  case (Cons prd ps)
  from add_product_cases [OF Cons.prems(1) assms(1)] obtain pl1 where
    1: "add_product df product_col location_col quantities pl prd = Inr pl1"
      "list_all positive_quantity pl1"
    by blast
  from add_product_unique [OF Cons.prems(1) assms Cons.prems(2) 1(1)]
  have "unique_keys product_col pl1" .
  with Cons.IH [of pl1] 1 show ?case by simp
qed

lemma run_unique_keys:
  assumes "product_col \<in> set (columns df)" "product_col \<noteq> ''Menge''"
  shows "list_all (uses_column product_col) actions \<Longrightarrow>
     list_all positive_quantity (ensure_picklist_state st) \<Longrightarrow>
     unique_keys product_col (ensure_picklist_state st) \<Longrightarrow>
     \<exists>st'. run df actions st = Inr st' \<and>
        list_all positive_quantity (ensure_picklist_state st') \<and>
        unique_keys product_col (ensure_picklist_state st')"
proof (induction actions arbitrary: st)
  case Nil
  then show ?case by simp
next
  case (Cons a actions)
  show ?case
  proof (cases a)
    case (Add pc location_col selected_products quantities)
    with Cons.prems have pc: "pc = product_col" by (simp add: uses_column_def)
    from add_products_unique [OF assms Cons.prems(2,3), of location_col selected_products quantities]
    obtain pl' where "add_to_picklist df product_col location_col selected_products quantities st = Inr (Some pl')"
      "list_all positive_quantity pl'" "unique_keys product_col pl'"
      by (auto simp: add_to_picklist_def)
    with Cons.IH [of "Some pl'"] Cons.prems(1) Add pc show ?thesis
      by (simp add: ensure_picklist_state_def)
  next
    case Clear
    with Cons.IH [of "Some []"] Cons.prems(1) show ?thesis
      by (simp add: clear_picklist_def ensure_picklist_state_def unique_keys_def)
  qed
qed

text \<open>
  Adding one product twice gives one entry with the sum of the two quantities, when the
  product column is neither of the two fixed field names and the product's own value
  is not missing.
\<close>

lemma add_twice_merges:
  assumes "0 < q1" and "0 < q2" and "product_col \<in> set (columns df)"
    and "product_col \<noteq> ''Menge''" and "product_col \<noteq> ''Lagerort_Anzeige''"
    and "find (\<lambda>r. py_str (cell_at r product_col) = prd) (records df) = Some r"
    and "cell_at r product_col \<noteq> NaN"
  shows "run df [Add product_col location_col [prd] [prd \<mapsto> q1],
                 Add product_col location_col [prd] [prd \<mapsto> q2]] None =
     Inr (Some [AList.update ''Menge'' (Number (q1 + q2)) (build_row df r location_col q1)])"
proof -
  have key: "map_of (build_row df r location_col q) product_col = Some (cell_at r product_col)" for q
    using assms(3-5) by (auto simp: build_row_def Let_def update_conv' map_of_to_dict split: option.splits)
  have first: "add_product df product_col location_col [prd \<mapsto> q1] [] prd =
      Inr [build_row df r location_col q1]"
    using assms by (simp add: add_product_def)
  have same: "py_eq (map_of (build_row df r location_col q1) product_col)
      (map_of (build_row df r location_col q2) product_col)"
    using assms(7) by (simp add: key py_eq_def)
  have second: "add_product df product_col location_col [prd \<mapsto> q2]
      [build_row df r location_col q1] prd =
      Inr [AList.update ''Menge'' (Number (q1 + q2)) (build_row df r location_col q1)]"
    using assms same by (simp add: add_product_def build_row_Menge)
  show ?thesis
    using first second by (simp add: add_to_picklist_def ensure_picklist_state_def)
qed

text \<open>
  C1. In \<open>stock\<close> the product column proposed by \<^verbatim>\<open>guess_column\<close> is \<^verbatim>\<open>Menge\<close>, the name
  under which line 92 stores the quantity. The entry then holds the quantity where line
  101 looks for the product, and adding the product \<^verbatim>\<open>10\<close> with quantity 2 and again with
  quantity 3 gives two entries, not one entry with quantity 5.
\<close>

theorem add_twice_menge_column:
  "guess_column (columns stock)
     [''artikel'', ''produkt'', ''product'', ''name'', ''bezeichnung'', ''item''] = Some ''Menge''
   \<and> run stock [Add ''Menge'' None [''10''] [''10'' \<mapsto> 2],
                 Add ''Menge'' None [''10''] [''10'' \<mapsto> 3]] None =
       Inr (Some [[(''Menge'', Number 2), (''Teil'', Text ''Bolt'')],
                  [(''Menge'', Number 3), (''Teil'', Text ''Bolt'')]])"
  by (simp add: stock_def guess_column_def cols_lower_def lower_def lower_char_def sublist_code
      add_to_picklist_def ensure_picklist_state_def add_product_def cell_at_def build_row_def
      to_dict_def py_eq_def digits.simps)

text \<open>
  A missing product value is not merged either: \<^verbatim>\<open>nan == nan\<close> is false, so adding the
  product \<^verbatim>\<open>nan\<close> of \<open>unnamed\<close> twice gives two entries with the same key.
\<close>

lemma add_twice_missing_product:
  "run unnamed [Add ''Item'' None [''nan''] [''nan'' \<mapsto> 2],
                Add ''Item'' None [''nan''] [''nan'' \<mapsto> 3]] None =
     Inr (Some [[(''Item'', NaN), (''Bin'', Text ''A1''), (''Menge'', Number 2)],
                [(''Item'', NaN), (''Bin'', Text ''A1''), (''Menge'', Number 3)]])"
  by (simp add: unnamed_def add_to_picklist_def ensure_picklist_state_def add_product_def
      cell_at_def build_row_def to_dict_def py_eq_def)

text \<open>
  C2. With the same catalog and product column, adding the product \<^verbatim>\<open>10\<close> four times with
  quantity 1 leaves two entries that agree in every field, the product column included.
\<close>

theorem add_four_times_menge_column:
  "run stock [Add ''Menge'' None [''10''] [''10'' \<mapsto> 1],
              Add ''Menge'' None [''10''] [''10'' \<mapsto> 1],
              Add ''Menge'' None [''10''] [''10'' \<mapsto> 1],
              Add ''Menge'' None [''10''] [''10'' \<mapsto> 1]] None =
     Inr (Some [[(''Menge'', Number 2), (''Teil'', Text ''Bolt'')],
                [(''Menge'', Number 2), (''Teil'', Text ''Bolt'')]])"
  by (simp add: stock_def add_to_picklist_def ensure_picklist_state_def add_product_def
      cell_at_def build_row_def to_dict_def py_eq_def digits.simps)

end
